theory Spec2Isabelle
  imports Main
begin

section \<open>A command-line password generator\<close>

text \<open>
  The program (\<^verbatim>\<open>main.py\<close>) builds a pool of characters from two flags, draws
  \<^verbatim>\<open>length\<close> characters from the pool with \<^verbatim>\<open>secrets.choice\<close>, prints the
  password and optionally appends it to a file. Python's \<^verbatim>\<open>int\<close> is unbounded and is
  modelled by \<^typ>\<open>int\<close>; \<^verbatim>\<open>str\<close> by \<^typ>\<open>string\<close>. Every \<^verbatim>\<open>raise\<close> is a
  value of the type \<open>error\<close>, returned on the left of a sum.
\<close>

subsection \<open>Exceptions\<close>

datatype error =
    ArgumentTypeError string
  | ValueError string
  | IndexError string
  | OSError string
  | SystemExit int

subsection \<open>The constants of Python's \<^verbatim>\<open>string\<close> module\<close>

definition ascii_lowercase :: string where
  "ascii_lowercase = ''abcdefghijklmnopqrstuvwxyz''"

definition ascii_uppercase :: string where
  "ascii_uppercase = ''ABCDEFGHIJKLMNOPQRSTUVWXYZ''"

definition ascii_letters :: string where
  "ascii_letters = ascii_lowercase @ ascii_uppercase"

definition digits :: string where
  "digits = ''0123456789''"

text \<open>
  \<^verbatim>\<open>string.punctuation\<close>: the 32 characters from \<^verbatim>\<open>!\<close> to \<^verbatim>\<open>~\<close> that are neither
  letters nor digits. The double quote (0x22), the apostrophe (0x27), the backslash (0x5C)
  and the backquote (0x60) are written by their codes.
\<close>

definition punctuation :: string where
  "punctuation =
     ''!'' @ [CHR 0x22] @ ''#$%&'' @ [CHR 0x27] @ ''()*+,-./:;<=>?@['' @ [CHR 0x5C]
       @ '']^_'' @ [CHR 0x60] @ ''{|}~''"

definition DEFAULT_LENGTH :: int where
  "DEFAULT_LENGTH = 12"

text \<open>Character classes by code point, to say what the constants above contain.\<close>

definition is_ascii_letter :: "char \<Rightarrow> bool" where
  "is_ascii_letter c =
     (let k = (of_char c :: nat) in (65 \<le> k \<and> k \<le> 90) \<or> (97 \<le> k \<and> k \<le> 122))"

definition is_ascii_digit :: "char \<Rightarrow> bool" where
  "is_ascii_digit c = (let k = (of_char c :: nat) in 48 \<le> k \<and> k \<le> 57)"

definition is_ascii_punctuation :: "char \<Rightarrow> bool" where
  "is_ascii_punctuation c =
     (let k = (of_char c :: nat)
      in 33 \<le> k \<and> k \<le> 126 \<and> \<not> is_ascii_letter c \<and> \<not> is_ascii_digit c)"

subsection \<open>The pool builder\<close>

text \<open>
  \<^verbatim>\<open>pool_parts\<close> starts as the one-element list of the letters; each flag appends one
  more part; the parts are joined with the empty separator.
\<close>

definition build_character_pool :: "bool \<Rightarrow> bool \<Rightarrow> string" where
  "build_character_pool include_numbers include_symbols =
     (let pool_parts = [ascii_letters];
          pool_parts = (if include_numbers then pool_parts @ [digits] else pool_parts);
          pool_parts = (if include_symbols then pool_parts @ [punctuation] else pool_parts)
      in concat pool_parts)"

subsection \<open>The secure random source\<close>

text \<open>
  The operating system's entropy source is an external collaborator. It is modelled as
  the infinite sequence of raw values it is going to deliver, one per call; no property
  of the sequence is assumed. \<^verbatim>\<open>secrets.choice(seq)\<close> raises \<^verbatim>\<open>IndexError\<close> on an
  empty sequence and otherwise returns \<^verbatim>\<open>seq[randbelow(len(seq))]\<close>, an index below
  the length: the raw value is reduced into that range, and the source moves on by one.
  Lemmas \<open>choice_any_index\<close> and \<open>draw_chars_any_password\<close> below show that every
  index below the length, and so every string over the pool, is delivered by some source:
  the model leaves out no behaviour of the real generator.
\<close>

type_synonym source = "nat \<Rightarrow> nat"

definition advance :: "source \<Rightarrow> source" where
  "advance src = (\<lambda>i. src (Suc i))"

definition randbelow :: "nat \<Rightarrow> source \<Rightarrow> nat \<times> source" where
  "randbelow n src = (src 0 mod n, advance src)"

definition choice :: "string \<Rightarrow> source \<Rightarrow> error + (char \<times> source)" where
  "choice seq src =
     (if seq = [] then Inl (IndexError ''Cannot choose from an empty sequence'')
      else (case randbelow (length seq) src of (i, src') \<Rightarrow> Inr (seq ! i, src')))"

subsection \<open>The generator\<close>

text \<open>
  \<^verbatim>\<open>"".join(choice(character_pool) for _ in range(length))\<close>: \<^verbatim>\<open>range(length)\<close>
  has \<open>nat length\<close> elements (none when \<^verbatim>\<open>length\<close> is zero or negative), and the
  characters are joined in the order in which they are drawn.
\<close>

fun draw_chars :: "nat \<Rightarrow> string \<Rightarrow> source \<Rightarrow> error + (string \<times> source)" where
  "draw_chars 0 character_pool src = Inr ([], src)"
| "draw_chars (Suc k) character_pool src =
     (case choice character_pool src of
        Inl e \<Rightarrow> Inl e
      | Inr (c, src') \<Rightarrow>
          (case draw_chars k character_pool src' of
             Inl e \<Rightarrow> Inl e
           | Inr (cs, src'') \<Rightarrow> Inr (c # cs, src'')))"

definition generate_password ::
  "int \<Rightarrow> bool \<Rightarrow> bool \<Rightarrow> source \<Rightarrow> error + (string \<times> source)" where
  "generate_password len include_numbers include_symbols src =
     (let character_pool = build_character_pool include_numbers include_symbols
      in if character_pool = [] then Inl (ValueError ''Character pool is empty'')
         else draw_chars (nat len) character_pool src)"

text \<open>Two concrete sources, for evaluating the model.\<close>

definition zero_source :: source where
  "zero_source i = 0"

definition stride_source :: source where
  "stride_source i = 3 + 30 * i"

subsection \<open>The outside world\<close>

text \<open>
  What the program reads and writes: the entropy source, the files it may append to, and
  the output it produces, as one chronological list of events so that the order between
  standard output and standard error is kept. A path is absent from \<open>files\<close> (the open
  call creates it), holds a regular file, cannot be opened for appending (\<open>Denied\<close>, with
  the text of the \<^verbatim>\<open>OSError\<close> the open call raises), or opens but fails on write
  (\<open>Write_fails\<close>, with its contents and the text of the error). Writing to the
  standard streams is taken to succeed.
\<close>

datatype node =
    Regular string
  | Denied string
  | Write_fails string string

datatype event =
    Stdout string
  | Stderr string
  | Help_text
  | Usage_error string

record world =
  entropy :: source
  files :: "string \<Rightarrow> node option"
  events :: "event list"

definition newline :: string where
  "newline = [CHR 0x0A]"

definition print_stdout :: "string \<Rightarrow> world \<Rightarrow> world" where
  "print_stdout text w = w\<lparr>events := events w @ [Stdout (text @ newline)]\<rparr>"

definition print_stderr :: "string \<Rightarrow> world \<Rightarrow> world" where
  "print_stderr text w = w\<lparr>events := events w @ [Stderr (text @ newline)]\<rparr>"

subsection \<open>Persistence\<close>

text \<open>
  \<^verbatim>\<open>open(file_path, "a")\<close> followed by one \<^verbatim>\<open>write(password + "\n")\<close>; the
  \<^verbatim>\<open>with\<close> block closes the handle on every path, so no handle is part of the state.
\<close>

definition append_password_to_file :: "string \<Rightarrow> string \<Rightarrow> world \<Rightarrow> error + world" where
  "append_password_to_file password file_path w =
     (case files w file_path of
        None \<Rightarrow> Inr (w\<lparr>files := (files w)(file_path \<mapsto> Regular (password @ newline))\<rparr>)
      | Some (Regular contents) \<Rightarrow>
          Inr (w\<lparr>files := (files w)(file_path \<mapsto> Regular (contents @ password @ newline))\<rparr>)
      | Some (Denied msg) \<Rightarrow> Inl (OSError msg)
      | Some (Write_fails contents msg) \<Rightarrow> Inl (OSError msg))"

subsection \<open>Argument validation\<close>

text \<open>
  \<^verbatim>\<open>int(value)\<close> is Python's builtin; it is a parameter \<open>py_int\<close> of the model, with
  \<open>None\<close> for \<^verbatim>\<open>ValueError\<close>. Nothing is assumed about which strings it accepts.
\<close>

definition positive_int :: "(string \<Rightarrow> int option) \<Rightarrow> string \<Rightarrow> error + int" where
  "positive_int py_int v =
     (case py_int v of
        None \<Rightarrow> Inl (ArgumentTypeError (''invalid int value: '' @ v))
      | Some parsed_value \<Rightarrow>
          if parsed_value < 1 then Inl (ArgumentTypeError ''length must be >= 1'')
          else Inr parsed_value)"

subsection \<open>The command line\<close>

text \<open>
  \<^verbatim>\<open>parse_args\<close> declares four options and hands \<^verbatim>\<open>argv\<close> to \<^verbatim>\<open>argparse\<close>.
  The library's matching of the arguments against the declared option strings
  (abbreviations, attached values, what counts as a value) is a parameter \<open>scan\<close>, which
  turns \<^verbatim>\<open>argv\<close> into the occurrences of options in the order in which the library
  processes them: one of the four declared options, the \<^verbatim>\<open>-h/--help\<close> option the
  library adds, or an argument the library rejects, with its message. What the program
  declares for each option is modelled here: the namespace field, the default, the
  \<^verbatim>\<open>store\<close> or \<^verbatim>\<open>store_true\<close> action, and the conversion \<^verbatim>\<open>type=positive_int\<close>.
  A conversion that raises \<^verbatim>\<open>ArgumentTypeError\<close> makes the library print a usage error
  and raise \<^verbatim>\<open>SystemExit(2)\<close>; the help option prints the help and raises
  \<^verbatim>\<open>SystemExit(0)\<close>.
\<close>

record namespace =
  args_length :: int
  args_numbers :: bool
  args_symbols :: bool
  args_save :: "string option"

datatype occurrence =
    Opt_length string
  | Opt_numbers
  | Opt_symbols
  | Opt_save string
  | Opt_help
  | Opt_invalid string

definition defaults :: namespace where
  "defaults =
     \<lparr>args_length = DEFAULT_LENGTH, args_numbers = False, args_symbols = False,
      args_save = None\<rparr>"

fun apply_actions ::
  "(string \<Rightarrow> int option) \<Rightarrow> namespace \<Rightarrow> occurrence list \<Rightarrow> (error \<times> event list) + namespace"
where
  "apply_actions py_int ns [] = Inr ns"
| "apply_actions py_int ns (Opt_length v # rest) =
     (case positive_int py_int v of
        Inl (ArgumentTypeError msg) \<Rightarrow>
          Inl (SystemExit 2, [Usage_error (''argument -l/--length: '' @ msg)])
      | Inl e \<Rightarrow> Inl (e, [])
      | Inr n \<Rightarrow> apply_actions py_int (ns\<lparr>args_length := n\<rparr>) rest)"
| "apply_actions py_int ns (Opt_numbers # rest) =
     apply_actions py_int (ns\<lparr>args_numbers := True\<rparr>) rest"
| "apply_actions py_int ns (Opt_symbols # rest) =
     apply_actions py_int (ns\<lparr>args_symbols := True\<rparr>) rest"
| "apply_actions py_int ns (Opt_save file # rest) =
     apply_actions py_int (ns\<lparr>args_save := Some file\<rparr>) rest"
| "apply_actions py_int ns (Opt_help # rest) = Inl (SystemExit 0, [Help_text])"
| "apply_actions py_int ns (Opt_invalid msg # rest) = Inl (SystemExit 2, [Usage_error msg])"

definition parse_args ::
  "(string list \<Rightarrow> occurrence list) \<Rightarrow> (string \<Rightarrow> int option) \<Rightarrow> string list \<Rightarrow> world
     \<Rightarrow> (error + namespace) \<times> world" where
  "parse_args scan py_int argv w =
     (case apply_actions py_int defaults (scan argv) of
        Inl (e, out) \<Rightarrow> (Inl e, w\<lparr>events := events w @ out\<rparr>)
      | Inr args \<Rightarrow> (Inr args, w))"

subsection \<open>The entry point\<close>

text \<open>
  \<^verbatim>\<open>if args.save:\<close> is false for \<^verbatim>\<open>None\<close> and for the empty string. Only
  \<^verbatim>\<open>OSError\<close> is caught around the save; any other exception leaves \<^verbatim>\<open>main\<close>.
\<close>

definition main ::
  "(string list \<Rightarrow> occurrence list) \<Rightarrow> (string \<Rightarrow> int option) \<Rightarrow> string list \<Rightarrow> world
     \<Rightarrow> (error + int) \<times> world" where
  "main scan py_int argv w =
     (case parse_args scan py_int argv w of
        (Inl e, w1) \<Rightarrow> (Inl e, w1)
      | (Inr args, w1) \<Rightarrow>
          (case generate_password (args_length args) (args_numbers args) (args_symbols args)
                  (entropy w1) of
             Inl e \<Rightarrow> (Inl e, w1)
           | Inr (password, src') \<Rightarrow>
               (let w2 = print_stdout password (w1\<lparr>entropy := src'\<rparr>)
                in case args_save args of
                     None \<Rightarrow> (Inr 0, w2)
                   | Some file_path \<Rightarrow>
                       if file_path = [] then (Inr 0, w2)
                       else (case append_password_to_file password file_path w2 of
                               Inr w3 \<Rightarrow> (Inr 0, w3)
                             | Inl (OSError msg) \<Rightarrow>
                                 (Inr 1,
                                  print_stderr
                                    (''Failed to save password to '' @ file_path @ '': '' @ msg)
                                    w2)
                             | Inl e \<Rightarrow> (Inl e, w2)))))"

text \<open>
  \<^verbatim>\<open>raise SystemExit(main(sys.argv[1:]))\<close>: the status of the process is the value
  \<^verbatim>\<open>main\<close> returns, or the code of the \<^verbatim>\<open>SystemExit\<close> the parser raised; an
  exception that nothing catches ends the interpreter with status 1.
\<close>

definition exit_status ::
  "(string list \<Rightarrow> occurrence list) \<Rightarrow> (string \<Rightarrow> int option) \<Rightarrow> string list \<Rightarrow> world \<Rightarrow> int"
where
  "exit_status scan py_int argv w =
     (case fst (main scan py_int argv w) of
        Inr code \<Rightarrow> code
      | Inl (SystemExit code) \<Rightarrow> code
      | Inl e \<Rightarrow> 1)"

subsection \<open>Instances of the parameters, for evaluation\<close>

text \<open>
  A reader of plain decimal literals with an optional sign, standing for \<^verbatim>\<open>int\<close> on
  such strings, and a scanner for command lines that spell every option exactly as
  declared, each value in the argument after its option. The theorems below hold for
  every \<open>py_int\<close> and every \<open>scan\<close>; these two only serve to run the model.
\<close>

definition digit_value :: "char \<Rightarrow> nat option" where
  "digit_value c =
     (if is_ascii_digit c then Some (of_char c - 48) else None)"

fun decimal_digits :: "nat \<Rightarrow> string \<Rightarrow> nat option" where
  "decimal_digits acc [] = Some acc"
| "decimal_digits acc (c # cs) =
     (case digit_value c of None \<Rightarrow> None | Some d \<Rightarrow> decimal_digits (10 * acc + d) cs)"

definition decimal_int :: "string \<Rightarrow> int option" where
  "decimal_int s =
     (case s of
        [] \<Rightarrow> None
      | c # cs \<Rightarrow>
          if c = CHR ''-'' then
            (if cs = [] then None else map_option (\<lambda>n. - int n) (decimal_digits 0 cs))
          else if c = CHR ''+'' then
            (if cs = [] then None else map_option int (decimal_digits 0 cs))
          else map_option int (decimal_digits 0 s))"

fun scan_exact :: "string list \<Rightarrow> occurrence list" where
  "scan_exact [] = []"
| "scan_exact [a] =
     (if a = ''-n'' \<or> a = ''--numbers'' then [Opt_numbers]
      else if a = ''-s'' \<or> a = ''--symbols'' then [Opt_symbols]
      else if a = ''-h'' \<or> a = ''--help'' then [Opt_help]
      else if a = ''-l'' \<or> a = ''--length'' \<or> a = ''--save''
        then [Opt_invalid (''argument '' @ a @ '': expected one argument'')]
      else [Opt_invalid (''unrecognized arguments: '' @ a)])"
| "scan_exact (a # b # rest) =
     (if a = ''-n'' \<or> a = ''--numbers'' then Opt_numbers # scan_exact (b # rest)
      else if a = ''-s'' \<or> a = ''--symbols'' then Opt_symbols # scan_exact (b # rest)
      else if a = ''-h'' \<or> a = ''--help'' then Opt_help # scan_exact (b # rest)
      else if a = ''-l'' \<or> a = ''--length'' then Opt_length b # scan_exact rest
      else if a = ''--save'' then Opt_save b # scan_exact rest
      else [Opt_invalid (''unrecognized arguments: '' @ a)])"

definition initial_world :: world where
  "initial_world = \<lparr>entropy = stride_source, files = Map.empty, events = []\<rparr>"

definition locked_world :: world where
  "locked_world =
     \<lparr>entropy = stride_source,
      files = [''out.txt'' \<mapsto> Denied ''Permission denied''],
      events = []\<rparr>"

section \<open>Properties\<close>

subsection \<open>The constants\<close>

lemma build_character_pool_eq:
  "build_character_pool n s =
     ascii_letters @ (if n then digits else []) @ (if s then punctuation else [])"
  by (simp add: build_character_pool_def)

lemma ascii_letters_not_empty: "ascii_letters \<noteq> []"
  by (simp add: ascii_letters_def ascii_lowercase_def)

lemma pool_not_empty: "build_character_pool n s \<noteq> []"
  by (simp add: build_character_pool_eq ascii_letters_not_empty)

lemma ascii_letters_shape: "length ascii_letters = 52 \<and> distinct ascii_letters"
  by (simp add: ascii_letters_def ascii_lowercase_def ascii_uppercase_def)

lemma ascii_letters_class: "c \<in> set ascii_letters \<Longrightarrow> is_ascii_letter c"
  by (auto simp add: ascii_letters_def ascii_lowercase_def ascii_uppercase_def
      is_ascii_letter_def)

lemma digits_shape: "length digits = 10 \<and> distinct digits"
  by (simp add: digits_def)

lemma digits_class: "c \<in> set digits \<Longrightarrow> is_ascii_digit c"
  by (auto simp add: digits_def is_ascii_digit_def)

lemma punctuation_shape: "length punctuation = 32 \<and> distinct punctuation"
  by (simp add: punctuation_def)

lemma punctuation_class: "c \<in> set punctuation \<Longrightarrow> is_ascii_punctuation c"
  by (auto simp add: punctuation_def is_ascii_punctuation_def is_ascii_letter_def
      is_ascii_digit_def)

lemma letter_not_digit: "is_ascii_letter c \<Longrightarrow> \<not> is_ascii_digit c"
  by (auto simp add: is_ascii_letter_def is_ascii_digit_def Let_def)

lemma letter_not_punctuation: "is_ascii_letter c \<Longrightarrow> \<not> is_ascii_punctuation c"
  by (simp add: is_ascii_punctuation_def Let_def)

lemma digit_not_punctuation: "is_ascii_digit c \<Longrightarrow> \<not> is_ascii_punctuation c"
  by (simp add: is_ascii_punctuation_def Let_def)

lemma seven_is_digit: "CHR ''7'' \<in> set digits"
  by (simp add: digits_def)

lemma tilde_is_punctuation: "CHR ''~'' \<in> set punctuation"
  by (simp add: punctuation_def)

subsection \<open>The generator\<close>

lemma choice_ok:
  "seq \<noteq> [] \<Longrightarrow> \<exists>c. choice seq src = Inr (c, advance src) \<and> c \<in> set seq"
  by (simp add: choice_def randbelow_def)

text \<open>A source whose next raw value is \<open>i\<close> makes \<open>choice\<close> return the element at \<open>i\<close>.\<close>

lemma choice_any_index:
  "i < length seq \<Longrightarrow> choice seq (case_nat i src) = Inr (seq ! i, src)"
  by (auto simp add: choice_def randbelow_def advance_def)

text \<open>
  The loop never fails on a non-empty pool: it returns as many characters as asked for,
  all of them from the pool. Induction on the number of draws, for any source, since
  each draw moves the source on.
\<close>

lemma draw_chars_ok:
  "pool \<noteq> [] \<Longrightarrow>
     \<exists>pw src'. draw_chars k pool src = Inr (pw, src') \<and> length pw = k \<and> set pw \<subseteq> set pool"
proof (induction k arbitrary: src)
  case 0
  then show ?case by simp
next
  case (Suc k)
  from choice_ok [OF Suc.prems, of src]
  obtain c where c: "choice pool src = Inr (c, advance src)" "c \<in> set pool" by blast
  from Suc.IH [OF Suc.prems, of "advance src"]
  obtain pw src' where r: "draw_chars k pool (advance src) = Inr (pw, src')"
    "length pw = k" "set pw \<subseteq> set pool" by blast
  show ?case using c r by simp
qed

text \<open>Conversely, every string over the pool is the outcome for some source.\<close>

lemma draw_chars_any_password:
  "set pw \<subseteq> set pool \<Longrightarrow> \<exists>src. draw_chars (length pw) pool src = Inr (pw, src')"
proof (induction pw)
  case Nil
  then show ?case by simp
next
  case (Cons c cs)
  then obtain src where src: "draw_chars (length cs) pool src = Inr (cs, src')" by auto
  from Cons.prems obtain i where i: "i < length pool" "pool ! i = c"
    by (auto simp add: in_set_conv_nth)
  have "choice pool (case_nat i src) = Inr (c, src)"
    using choice_any_index [OF i(1), of src] i(2) by simp
  then have "draw_chars (length (c # cs)) pool (case_nat i src) = Inr (c # cs, src')"
    using src by simp
  then show ?case by blast
qed

lemma generate_password_ok:
  "\<exists>pw src'. generate_password L n s src = Inr (pw, src') \<and> length pw = nat L
      \<and> set pw \<subseteq> set (build_character_pool n s)"
  using draw_chars_ok [OF pool_not_empty, of "nat L" n s src]
  by (simp add: generate_password_def pool_not_empty)

lemma generate_password_empty:
  "L \<le> 0 \<Longrightarrow> generate_password L n s src = Inr ([], src)"
  by (simp add: generate_password_def pool_not_empty)

lemma stride_password_3:
  "generate_password 3 False False stride_source = Inr (pw, src') \<Longrightarrow> pw = ''dHl''"
proof -
  assume g: "generate_password 3 False False stride_source = Inr (pw, src')"
  have "map_sum id fst (generate_password 3 False False stride_source) = Inr ''dHl''"
    by code_simp
  with g show ?thesis by simp
qed

subsection \<open>The command line\<close>

lemma decimal_int_0: "decimal_int ''0'' = Some 0"
  by (simp add: decimal_int_def digit_value_def is_ascii_digit_def)

lemma decimal_int_3: "decimal_int ''3'' = Some 3"
  by (simp add: decimal_int_def digit_value_def is_ascii_digit_def)

lemma positive_int_rejects:
  "py_int v = None \<or> (\<exists>k. py_int v = Some k \<and> k < 1) \<Longrightarrow>
     \<exists>msg. positive_int py_int v = Inl (ArgumentTypeError msg)"
  by (auto simp add: positive_int_def)

lemma positive_int_accepts:
  "positive_int py_int v = Inr k \<longleftrightarrow> py_int v = Some k \<and> 1 \<le> k"
  by (auto simp add: positive_int_def split: option.splits)

text \<open>
  Occurrences that were processed without leaving the parser only update the namespace;
  the parser then goes on with the rest.
\<close>

lemma apply_actions_append:
  "apply_actions py_int ns pre = Inr ns' \<Longrightarrow>
     apply_actions py_int ns (pre @ rest) = apply_actions py_int ns' rest"
proof (induction py_int ns pre rule: apply_actions.induct)
  case (2 py_int ns v rest')
  then show ?case by (auto split: sum.splits error.splits)
qed simp_all

lemma apply_actions_length_positive:
  "apply_actions py_int ns occs = Inr ns' \<Longrightarrow> 1 \<le> args_length ns \<Longrightarrow> 1 \<le> args_length ns'"
proof (induction py_int ns occs rule: apply_actions.induct)
  case (2 py_int ns v rest')
  then show ?case by (auto simp add: positive_int_accepts split: sum.splits error.splits)
qed simp_all

lemma parse_args_success:
  "parse_args scan py_int argv w = (Inr args, w1) \<Longrightarrow> w1 = w"
  by (auto simp add: parse_args_def split: sum.splits prod.splits)

text \<open>Whatever the command line, a namespace that reaches the generator holds a length of at
  least 1.\<close>

lemma parsed_length_positive:
  "parse_args scan py_int argv w = (Inr args, w1) \<Longrightarrow> 1 \<le> args_length args"
proof -
  assume "parse_args scan py_int argv w = (Inr args, w1)"
  then have "apply_actions py_int defaults (scan argv) = Inr args"
    by (auto simp add: parse_args_def split: sum.splits prod.splits)
  then show ?thesis
    by (rule apply_actions_length_positive) (simp add: defaults_def DEFAULT_LENGTH_def)
qed

lemma main_after_parse:
  assumes "parse_args scan py_int argv w = (Inr args, w1)"
    and "generate_password (args_length args) (args_numbers args) (args_symbols args)
           (entropy w) = Inr (password, src')"
  shows "main scan py_int argv w =
     (let w2 = print_stdout password (w\<lparr>entropy := src'\<rparr>)
      in case args_save args of
           None \<Rightarrow> (Inr 0, w2)
         | Some file_path \<Rightarrow>
             if file_path = [] then (Inr 0, w2)
             else (case append_password_to_file password file_path w2 of
                     Inr w3 \<Rightarrow> (Inr 0, w3)
                   | Inl (OSError msg) \<Rightarrow>
                       (Inr 1,
                        print_stderr
                          (''Failed to save password to '' @ file_path @ '': '' @ msg) w2)
                   | Inl e \<Rightarrow> (Inl e, w2)))"
  using assms parse_args_success [OF assms(1)] by (simp add: main_def)

section \<open>The claims\<close>

text \<open>
  C1. For every length \<open>L \<ge> 1\<close> and every pair of flags, \<open>generate_password\<close> returns
  a string, and its length is exactly \<open>L\<close>, whatever the random source delivers.
\<close>

theorem generate_password_length:
  "1 \<le> L \<Longrightarrow>
     \<exists>pw src'. generate_password L n s src = Inr (pw, src') \<and> int (length pw) = L"
proof -
  assume L: "1 \<le> L"
  from generate_password_ok [of L n s src]
  obtain pw src' where "generate_password L n s src = Inr (pw, src')" "length pw = nat L"
    by blast
  with L show ?thesis by simp
qed

text \<open>C1, at length 3 with numbers enabled.\<close>

theorem generate_password_length_witness:
  "(1::int) \<le> 3 \<and>
   (\<exists>pw src'. generate_password 3 True False stride_source = Inr (pw, src')
      \<and> int (length pw) = 3)"
  using generate_password_length [of 3 True False stride_source] by simp

text \<open>
  C2. For every length \<open>L \<ge> 1\<close> and every pair of flags, \<open>generate_password\<close> returns
  a string whose characters all belong to \<open>build_character_pool\<close> of the same flags; with
  both flags false, no digit and no punctuation character occurs in it.
\<close>

theorem generate_password_in_pool:
  "1 \<le> L \<Longrightarrow>
     \<exists>pw src'. generate_password L n s src = Inr (pw, src')
       \<and> (\<forall>c\<in>set pw. c \<in> set (build_character_pool n s))
       \<and> (\<not> n \<and> \<not> s \<longrightarrow> (\<forall>c\<in>set pw. c \<notin> set digits \<and> c \<notin> set punctuation))"
proof -
  from generate_password_ok [of L n s src]
  obtain pw src' where r: "generate_password L n s src = Inr (pw, src')"
    "set pw \<subseteq> set (build_character_pool n s)"
    by blast
  have "c \<notin> set digits \<and> c \<notin> set punctuation"
    if "\<not> n" "\<not> s" "c \<in> set pw" for c
  proof -
    from that r(2) have "c \<in> set ascii_letters"
      by (auto simp add: build_character_pool_eq)
    then have "is_ascii_letter c" by (rule ascii_letters_class)
    then show ?thesis
      using letter_not_digit letter_not_punctuation digits_class punctuation_class by blast
  qed
  with r show ?thesis by blast
qed

text \<open>C2, at length 3 with both flags false.\<close>

theorem generate_password_in_pool_witness:
  "(1::int) \<le> 3 \<and>
   (\<exists>pw src'. generate_password 3 False False stride_source = Inr (pw, src')
       \<and> (\<forall>c\<in>set pw. c \<in> set (build_character_pool False False))
       \<and> (\<forall>c\<in>set pw. c \<notin> set digits \<and> c \<notin> set punctuation))"
  using generate_password_in_pool [of 3 False False stride_source] by simp

text \<open>
  C3, as stated, fails: \<open>generate_password\<close> does not check its length. At length 0 it
  returns the empty password and raises nothing.
\<close>

theorem generate_password_nonpositive_counterexample:
  "generate_password 0 False False zero_source = Inr ([], zero_source)"
  by (simp add: generate_password_def pool_not_empty)

text \<open>
  C3, amended. For every length \<open>L < 1\<close> and every pair of flags, \<open>generate_password\<close>
  raises no error: it returns the empty password and leaves the source untouched. A
  length below 1 is rejected earlier, at the command line: for every argument that
  \<^verbatim>\<open>int\<close> reads as \<open>L\<close>, \<open>positive_int\<close> raises
  \<^verbatim>\<open>ArgumentTypeError("length must be >= 1")\<close>.
\<close>

theorem nonpositive_length_rejected_by_parser_only:
  "L < 1 \<Longrightarrow>
     (\<forall>e. generate_password L n s src \<noteq> Inl e)
     \<and> generate_password L n s src = Inr ([], src)
     \<and> (py_int v = Some L \<longrightarrow>
          positive_int py_int v = Inl (ArgumentTypeError ''length must be >= 1''))"
  by (simp add: generate_password_empty positive_int_def)

text \<open>C3 amended, at length 0 given as the argument \<^verbatim>\<open>0\<close>.\<close>

theorem nonpositive_length_rejected_by_parser_only_witness:
  "(0::int) < 1 \<and> (\<forall>e. generate_password 0 True True stride_source \<noteq> Inl e)
     \<and> generate_password 0 True True stride_source = Inr ([], stride_source)
     \<and> decimal_int ''0'' = Some 0
     \<and> positive_int decimal_int ''0'' = Inl (ArgumentTypeError ''length must be >= 1'')"
  using nonpositive_length_rejected_by_parser_only
          [of 0 True True stride_source decimal_int "''0''"] decimal_int_0
  by simp

text \<open>
  C4. For every pair of flags, \<open>build_character_pool\<close> is the letters, followed by the
  digits exactly when \<open>include_numbers\<close> holds, followed by the punctuation exactly when
  \<open>include_symbols\<close> holds; the letters are 52 distinct ASCII letters, the digits the 10
  distinct ASCII digits, the punctuation a fixed list of 32 distinct ASCII punctuation
  characters.
\<close>

theorem build_character_pool_concatenation:
  "build_character_pool n s =
     ascii_letters @ (if n then digits else []) @ (if s then punctuation else [])
   \<and> length ascii_letters = 52 \<and> distinct ascii_letters
   \<and> (\<forall>c\<in>set ascii_letters. is_ascii_letter c)
   \<and> length digits = 10 \<and> distinct digits \<and> (\<forall>c\<in>set digits. is_ascii_digit c)
   \<and> length punctuation = 32 \<and> distinct punctuation
   \<and> (\<forall>c\<in>set punctuation. is_ascii_punctuation c)"
  using ascii_letters_shape digits_shape punctuation_shape
    ascii_letters_class digits_class punctuation_class
  by (simp add: build_character_pool_eq)

text \<open>C4, with numbers enabled and symbols disabled.\<close>

theorem build_character_pool_concatenation_witness:
  "build_character_pool True False =
     ''abcdefghijklmnopqrstuvwxyzABCDEFGHIJKLMNOPQRSTUVWXYZ0123456789''
   \<and> is_ascii_letter (CHR ''q'') \<and> is_ascii_digit (CHR ''4'')
   \<and> is_ascii_punctuation (CHR ''~'')"
proof -
  have q: "CHR ''q'' \<in> set ascii_letters"
    by (simp add: ascii_letters_def ascii_lowercase_def)
  have d: "CHR ''4'' \<in> set digits" by (simp add: digits_def)
  from build_character_pool_concatenation [of True False] q d tilde_is_punctuation
  have "build_character_pool True False = ascii_letters @ digits"
    and "is_ascii_letter (CHR ''q'')" and "is_ascii_digit (CHR ''4'')"
    and "is_ascii_punctuation (CHR ''~'')"
    by auto
  then show ?thesis
    by (simp add: ascii_letters_def ascii_lowercase_def ascii_uppercase_def digits_def)
qed

text \<open>C5. For every pair of flags, the pool \<open>build_character_pool\<close> returns is not empty.\<close>

theorem build_character_pool_never_empty: "build_character_pool n s \<noteq> []"
  by (rule pool_not_empty)

text \<open>
  C6, as stated, fails when the help option comes first. On the command line
  \<^verbatim>\<open>-h -l 0\<close> the length argument reads as 0, but the parser prints the help and
  raises \<^verbatim>\<open>SystemExit(0)\<close> at \<^verbatim>\<open>-h\<close>: the length is never handed to
  \<open>positive_int\<close>, no usage error is reported, and the status of the process is 0.
\<close>

theorem help_before_invalid_length_counterexample:
  "decimal_int ''0'' = Some 0 \<and> (0::int) < 1
   \<and> scan_exact [''-h'', ''-l'', ''0''] = [Opt_help, Opt_length ''0'']
   \<and> fst (main scan_exact decimal_int [''-h'', ''-l'', ''0''] initial_world)
       = Inl (SystemExit 0)
   \<and> events (snd (main scan_exact decimal_int [''-h'', ''-l'', ''0''] initial_world))
       = [Help_text]
   \<and> exit_status scan_exact decimal_int [''-h'', ''-l'', ''0''] initial_world = 0"
  by (simp add: decimal_int_0 exit_status_def main_def parse_args_def initial_world_def)

text \<open>
  C6, amended. A length argument that \<^verbatim>\<open>int\<close> does not read, or reads as an integer
  below 1, is rejected by \<open>positive_int\<close> when the parser reaches it, that is, when the
  occurrences before it on the command line were processed without leaving the parser:
  \<open>main\<close> ends with \<^verbatim>\<open>SystemExit(2)\<close>, the only thing that happened is the
  parser's usage error, so no character was drawn and nothing was printed or saved, and
  the status of the process is 2.
\<close>

theorem invalid_length_rejected_before_generation:
  assumes bad: "py_int v = None \<or> (\<exists>k. py_int v = Some k \<and> k < 1)"
    and argv: "scan argv = pre @ Opt_length v # post"
    and pre: "apply_actions py_int defaults pre = Inr ns"
  shows "\<exists>msg. positive_int py_int v = Inl (ArgumentTypeError msg)
           \<and> main scan py_int argv w =
               (Inl (SystemExit 2),
                w\<lparr>events := events w @ [Usage_error (''argument -l/--length: '' @ msg)]\<rparr>)
           \<and> exit_status scan py_int argv w = 2"
proof -
  from bad positive_int_rejects [of py_int v]
  obtain msg where msg: "positive_int py_int v = Inl (ArgumentTypeError msg)" by blast
  have "apply_actions py_int defaults (scan argv) =
          Inl (SystemExit 2, [Usage_error (''argument -l/--length: '' @ msg)])"
    using apply_actions_append [OF pre, of "Opt_length v # post"] argv msg by simp
  then have m: "main scan py_int argv w =
      (Inl (SystemExit 2),
       w\<lparr>events := events w @ [Usage_error (''argument -l/--length: '' @ msg)]\<rparr>)"
    by (simp add: main_def parse_args_def)
  then have "exit_status scan py_int argv w = 2"
    by (simp add: exit_status_def)
  with msg m show ?thesis by blast
qed

text \<open>
  C6 amended, on the command lines \<^verbatim>\<open>-n --length 0 --save out.txt\<close> (an integer below 1)
  and \<^verbatim>\<open>-l abc\<close> (not an integer).
\<close>

theorem invalid_length_rejected_before_generation_witness:
  "decimal_int ''0'' = Some 0 \<and> (0::int) < 1
   \<and> scan_exact [''-n'', ''--length'', ''0'', ''--save'', ''out.txt'']
       = [Opt_numbers] @ Opt_length ''0'' # [Opt_save ''out.txt'']
   \<and> apply_actions decimal_int defaults [Opt_numbers] = Inr (defaults\<lparr>args_numbers := True\<rparr>)
   \<and> fst (main scan_exact decimal_int [''-n'', ''--length'', ''0'', ''--save'', ''out.txt'']
           initial_world) = Inl (SystemExit 2)
   \<and> events (snd (main scan_exact decimal_int
                    [''-n'', ''--length'', ''0'', ''--save'', ''out.txt''] initial_world))
       = [Usage_error ''argument -l/--length: length must be >= 1'']
   \<and> exit_status scan_exact decimal_int [''-n'', ''--length'', ''0'', ''--save'', ''out.txt'']
        initial_world = 2
   \<and> decimal_int ''abc'' = None
   \<and> scan_exact [''-l'', ''abc''] = [] @ Opt_length ''abc'' # []
   \<and> apply_actions decimal_int defaults [] = Inr defaults
   \<and> fst (main scan_exact decimal_int [''-l'', ''abc''] initial_world) = Inl (SystemExit 2)
   \<and> events (snd (main scan_exact decimal_int [''-l'', ''abc''] initial_world))
       = [Usage_error ''argument -l/--length: invalid int value: abc'']
   \<and> exit_status scan_exact decimal_int [''-l'', ''abc''] initial_world = 2"
proof -
  have s: "scan_exact [''-n'', ''--length'', ''0'', ''--save'', ''out.txt'']
       = [Opt_numbers] @ Opt_length ''0'' # [Opt_save ''out.txt'']"
    by simp
  have a: "apply_actions decimal_int defaults [Opt_numbers]
       = Inr (defaults\<lparr>args_numbers := True\<rparr>)"
    by simp
  have p: "positive_int decimal_int ''0'' = Inl (ArgumentTypeError ''length must be >= 1'')"
    by (simp add: positive_int_def decimal_int_0)
  have low: "fst (main scan_exact decimal_int
                    [''-n'', ''--length'', ''0'', ''--save'', ''out.txt''] initial_world)
        = Inl (SystemExit 2)
      \<and> events (snd (main scan_exact decimal_int
                    [''-n'', ''--length'', ''0'', ''--save'', ''out.txt''] initial_world))
        = [Usage_error ''argument -l/--length: length must be >= 1'']
      \<and> exit_status scan_exact decimal_int
            [''-n'', ''--length'', ''0'', ''--save'', ''out.txt''] initial_world = 2"
    using invalid_length_rejected_before_generation
            [of decimal_int "''0''" scan_exact, OF _ s a, of initial_world] decimal_int_0 p
    by (auto simp add: initial_world_def)
  have n: "decimal_int ''abc'' = None"
    by (simp add: decimal_int_def digit_value_def is_ascii_digit_def)
  have s': "scan_exact [''-l'', ''abc''] = [] @ Opt_length ''abc'' # []"
    by simp
  have a': "apply_actions decimal_int defaults [] = Inr defaults"
    by simp
  have p': "positive_int decimal_int ''abc''
      = Inl (ArgumentTypeError ''invalid int value: abc'')"
    by (simp add: positive_int_def n)
  have unread: "fst (main scan_exact decimal_int [''-l'', ''abc''] initial_world)
        = Inl (SystemExit 2)
      \<and> events (snd (main scan_exact decimal_int [''-l'', ''abc''] initial_world))
        = [Usage_error ''argument -l/--length: invalid int value: abc'']
      \<and> exit_status scan_exact decimal_int [''-l'', ''abc''] initial_world = 2"
    using invalid_length_rejected_before_generation
            [of decimal_int "''abc''" scan_exact, OF _ s' a', of initial_world] n p'
    by (auto simp add: initial_world_def)
  from decimal_int_0 s a low n s' a' unread show ?thesis
    by simp
qed

text \<open>
  C7. For each flag, the characters of the pool with the flag enabled are a strict
  superset of those with it disabled, the other flag being the same; with both flags
  disabled the pool is the letters, and holds letters only.
\<close>

theorem pool_strictly_monotone:
  "set (build_character_pool False s) \<subset> set (build_character_pool True s)
   \<and> set (build_character_pool n False) \<subset> set (build_character_pool n True)
   \<and> build_character_pool False False = ascii_letters
   \<and> (\<forall>c\<in>set (build_character_pool False False). is_ascii_letter c)"
proof -
  have seven: "CHR ''7'' \<notin> set (build_character_pool False s)"
    using seven_is_digit ascii_letters_class [of "CHR ''7''"]
      punctuation_class [of "CHR ''7''"] digits_class [of "CHR ''7''"]
      letter_not_digit digit_not_punctuation
    by (auto simp add: build_character_pool_eq)
  have tilde: "CHR ''~'' \<notin> set (build_character_pool n False)"
    using tilde_is_punctuation ascii_letters_class [of "CHR ''~''"]
      punctuation_class [of "CHR ''~''"] digits_class [of "CHR ''~''"]
      letter_not_punctuation digit_not_punctuation
    by (auto simp add: build_character_pool_eq)
  have "set (build_character_pool False s) \<subset> set (build_character_pool True s)"
    using seven seven_is_digit by (auto simp add: build_character_pool_eq)
  moreover have "set (build_character_pool n False) \<subset> set (build_character_pool n True)"
    using tilde tilde_is_punctuation by (auto simp add: build_character_pool_eq)
  moreover have "build_character_pool False False = ascii_letters"
    by (simp add: build_character_pool_eq)
  ultimately show ?thesis using ascii_letters_class by simp
qed

text \<open>C7, with the other flag enabled in both comparisons.\<close>

theorem pool_strictly_monotone_witness:
  "set (build_character_pool False True) \<subset> set (build_character_pool True True)
   \<and> set (build_character_pool True False) \<subset> set (build_character_pool True True)
   \<and> build_character_pool False False
       = ''abcdefghijklmnopqrstuvwxyzABCDEFGHIJKLMNOPQRSTUVWXYZ''
   \<and> is_ascii_letter (CHR ''Q'')"
proof -
  have q: "CHR ''Q'' \<in> set ascii_letters"
    by (simp add: ascii_letters_def ascii_uppercase_def)
  from pool_strictly_monotone [of True True] q
  show ?thesis
    by (simp add: ascii_letters_def ascii_lowercase_def ascii_uppercase_def)
qed

text \<open>
  C8. When the command line is accepted, the password is generated and \<open>main\<close> returns 0
  if no save is requested (\<^verbatim>\<open>args.save\<close> is \<^verbatim>\<open>None\<close> or empty) or the append
  succeeds, and returns 1 if the append raises \<^verbatim>\<open>OSError\<close>; in that case the output
  of the run is the password on standard output, then the failure message on standard
  error.
\<close>

theorem main_exit_codes:
  assumes parsed: "parse_args scan py_int argv w = (Inr args, w1)"
  shows "\<exists>password src'.
      generate_password (args_length args) (args_numbers args) (args_symbols args) (entropy w)
        = Inr (password, src')
      \<and> (args_save args = None \<or> args_save args = Some [] \<longrightarrow>
           main scan py_int argv w = (Inr 0, print_stdout password (w\<lparr>entropy := src'\<rparr>)))
      \<and> (\<forall>file_path w3.
            args_save args = Some file_path \<and> file_path \<noteq> []
            \<and> append_password_to_file password file_path
                 (print_stdout password (w\<lparr>entropy := src'\<rparr>)) = Inr w3
            \<longrightarrow> main scan py_int argv w = (Inr 0, w3))
      \<and> (\<forall>file_path msg.
            args_save args = Some file_path \<and> file_path \<noteq> []
            \<and> append_password_to_file password file_path
                 (print_stdout password (w\<lparr>entropy := src'\<rparr>)) = Inl (OSError msg)
            \<longrightarrow> fst (main scan py_int argv w) = Inr 1
                \<and> events (snd (main scan py_int argv w)) =
                    events w @
                      [Stdout (password @ newline),
                       Stderr (''Failed to save password to '' @ file_path @ '': '' @ msg
                                 @ newline)])"
proof -
  from generate_password_ok [of "args_length args" "args_numbers args" "args_symbols args"
      "entropy w"]
  obtain password src' where g:
    "generate_password (args_length args) (args_numbers args) (args_symbols args) (entropy w)
       = Inr (password, src')"
    by blast
  note m = main_after_parse [OF parsed g]
  have a: "args_save args = None \<or> args_save args = Some [] \<longrightarrow>
      main scan py_int argv w = (Inr 0, print_stdout password (w\<lparr>entropy := src'\<rparr>))"
    using m by (auto simp add: Let_def)
  have b: "main scan py_int argv w = (Inr 0, w3)"
    if "args_save args = Some file_path" "file_path \<noteq> []"
      "append_password_to_file password file_path
         (print_stdout password (w\<lparr>entropy := src'\<rparr>)) = Inr w3"
    for file_path w3
    using m that by (simp add: Let_def)
  have c: "fst (main scan py_int argv w) = Inr 1
      \<and> events (snd (main scan py_int argv w)) =
          events w @
            [Stdout (password @ newline),
             Stderr (''Failed to save password to '' @ file_path @ '': '' @ msg @ newline)]"
    if "args_save args = Some file_path" "file_path \<noteq> []"
      "append_password_to_file password file_path
         (print_stdout password (w\<lparr>entropy := src'\<rparr>)) = Inl (OSError msg)"
    for file_path msg
    using m that by (simp add: Let_def print_stdout_def print_stderr_def)
  from g a b c show ?thesis by blast
qed

text \<open>
  C8, on three runs: \<^verbatim>\<open>-l 3\<close>; \<^verbatim>\<open>-l 3 --save out.txt\<close> where the file does not
  exist yet; the same where the file cannot be opened.
\<close>

theorem main_exit_codes_witness:
  "parse_args scan_exact decimal_int [''-l'', ''3''] initial_world
     = (Inr (defaults\<lparr>args_length := 3\<rparr>), initial_world)
   \<and> fst (main scan_exact decimal_int [''-l'', ''3''] initial_world) = Inr 0
   \<and> events (snd (main scan_exact decimal_int [''-l'', ''3''] initial_world))
       = [Stdout (''dHl'' @ newline)]
   \<and> parse_args scan_exact decimal_int [''-l'', ''3'', ''--save'', ''out.txt''] initial_world
       = (Inr (defaults\<lparr>args_length := 3, args_save := Some ''out.txt''\<rparr>), initial_world)
   \<and> fst (main scan_exact decimal_int [''-l'', ''3'', ''--save'', ''out.txt''] initial_world)
       = Inr 0
   \<and> files (snd (main scan_exact decimal_int [''-l'', ''3'', ''--save'', ''out.txt'']
                    initial_world)) ''out.txt''
       = Some (Regular (''dHl'' @ newline))
   \<and> parse_args scan_exact decimal_int [''-l'', ''3'', ''--save'', ''out.txt''] locked_world
       = (Inr (defaults\<lparr>args_length := 3, args_save := Some ''out.txt''\<rparr>), locked_world)
   \<and> fst (main scan_exact decimal_int [''-l'', ''3'', ''--save'', ''out.txt''] locked_world)
       = Inr 1
   \<and> events (snd (main scan_exact decimal_int [''-l'', ''3'', ''--save'', ''out.txt'']
                     locked_world))
       = [Stdout (''dHl'' @ newline),
          Stderr (''Failed to save password to out.txt: Permission denied'' @ newline)]"
proof -
  let ?plain = "[''-l'', ''3'']"
  let ?save = "[''-l'', ''3'', ''--save'', ''out.txt'']"
  have p1: "parse_args scan_exact decimal_int ?plain initial_world
      = (Inr (defaults\<lparr>args_length := 3\<rparr>), initial_world)"
    by (simp add: parse_args_def positive_int_def decimal_int_3)
  have p2: "parse_args scan_exact decimal_int ?save w
      = (Inr (defaults\<lparr>args_length := 3, args_save := Some ''out.txt''\<rparr>), w)" for w
    by (simp add: parse_args_def positive_int_def decimal_int_3)
  have r1: "fst (main scan_exact decimal_int ?plain initial_world) = Inr 0
      \<and> events (snd (main scan_exact decimal_int ?plain initial_world))
          = [Stdout (''dHl'' @ newline)]"
  proof -
    from main_exit_codes [OF p1]
    obtain password src' where
      g: "generate_password 3 False False stride_source = Inr (password, src')"
      and m: "main scan_exact decimal_int ?plain initial_world
          = (Inr 0, print_stdout password (initial_world\<lparr>entropy := src'\<rparr>))"
      by (auto simp add: defaults_def initial_world_def)
    from stride_password_3 [OF g] m show ?thesis
      by (simp add: print_stdout_def initial_world_def)
  qed
  have r2: "fst (main scan_exact decimal_int ?save initial_world) = Inr 0
      \<and> files (snd (main scan_exact decimal_int ?save initial_world)) ''out.txt''
          = Some (Regular (''dHl'' @ newline))"
  proof -
    from main_exit_codes [OF p2 [of initial_world]]
    obtain password src' where
      g: "generate_password 3 False False stride_source = Inr (password, src')"
      and m: "\<And>w3. append_password_to_file password ''out.txt''
                 (print_stdout password (initial_world\<lparr>entropy := src'\<rparr>)) = Inr w3
            \<Longrightarrow> main scan_exact decimal_int ?save initial_world = (Inr 0, w3)"
      by (auto simp add: defaults_def initial_world_def)
    have pw: "password = ''dHl''" by (rule stride_password_3 [OF g])
    show ?thesis
      using m [OF refl [THEN trans]] pw
      by (simp add: append_password_to_file_def print_stdout_def initial_world_def)
  qed
  have r3: "fst (main scan_exact decimal_int ?save locked_world) = Inr 1
      \<and> events (snd (main scan_exact decimal_int ?save locked_world))
          = [Stdout (''dHl'' @ newline),
             Stderr (''Failed to save password to out.txt: Permission denied'' @ newline)]"
  proof -
    from main_exit_codes [OF p2 [of locked_world]]
    obtain password src' where
      g: "generate_password 3 False False stride_source = Inr (password, src')"
      and m: "\<And>msg. append_password_to_file password ''out.txt''
                 (print_stdout password (locked_world\<lparr>entropy := src'\<rparr>))
                   = Inl (OSError msg)
            \<Longrightarrow> fst (main scan_exact decimal_int ?save locked_world) = Inr 1
                \<and> events (snd (main scan_exact decimal_int ?save locked_world)) =
                    events locked_world @
                      [Stdout (password @ newline),
                       Stderr (''Failed to save password to '' @ ''out.txt'' @ '': '' @ msg
                                 @ newline)]"
      by (auto simp add: defaults_def locked_world_def)
    have pw: "password = ''dHl''" by (rule stride_password_3 [OF g])
    have "append_password_to_file password ''out.txt''
            (print_stdout password (locked_world\<lparr>entropy := src'\<rparr>))
              = Inl (OSError ''Permission denied'')"
      by (simp add: append_password_to_file_def print_stdout_def locked_world_def)
    from m [OF this] pw show ?thesis
      by (simp add: locked_world_def)
  qed
  from p1 p2 [of initial_world] p2 [of locked_world] r1 r2 r3 show ?thesis
    by blast
qed

text \<open>
  C9. The branch of \<open>generate_password\<close> that raises
  \<^verbatim>\<open>ValueError("Character pool is empty")\<close> is never taken: the pool is not empty
  for any flags, and no call returns that error.
\<close>

theorem empty_pool_branch_unreachable:
  "build_character_pool n s \<noteq> []
   \<and> generate_password L n s src \<noteq> Inl (ValueError ''Character pool is empty'')"
  using generate_password_ok [of L n s src] by (auto simp add: pool_not_empty)

text \<open>
  C10. For every length \<open>L \<le> 0\<close> and every pair of flags, \<open>generate_password\<close>
  returns the empty string, raises nothing and draws nothing from the source.
\<close>

theorem generate_password_nonpositive_empty:
  "L \<le> 0 \<Longrightarrow> generate_password L n s src = Inr ([], src)"
  by (rule generate_password_empty)

text \<open>C10, at length -4 with both flags enabled.\<close>

theorem generate_password_nonpositive_empty_witness:
  "(- 4 :: int) \<le> 0
   \<and> generate_password (- 4) True True stride_source = Inr ([], stride_source)"
  using generate_password_nonpositive_empty [of "- 4" True True stride_source] by simp

end
